theory Spec2Isabelle
  imports Main
begin

section \<open>Data model of \<^verbatim>\<open>dkb_robo/dkb_robo.py\<close>\<close>

text \<open>
  Python dictionaries whose content the facade never inspects are association lists.
  An account directory maps an account index to an account record; a transaction is one
  record of the list a variant returns.
\<close>

type_synonym pydict = "(string \<times> string) list"
type_synonym account_dic = "(nat \<times> pydict) list"
type_synonym transaction = pydict

text \<open>
  Exceptions are values. \<open>DKBRoboError\<close> is the class of lines 10-11; the source
  declares no subclass of it, and \<open>Plain\<close> is the class itself. The other kinds are
  the sub-kinds the specification lists under the root error.
  \<open>AttributeError\<close> is what Python raises for a method looked up on \<open>None\<close>.
  \<open>PyError cls msg\<close> stands for an exception of any other class \<open>cls\<close>
  (for example a transport error of the HTTP library a variant uses).
\<close>

datatype kind =
    Plain
  | AuthenticationError
  | MFARequiredError
  | TransportError
  | SessionExpiredError
  | DateFormatError
  | DateRangeError
  | ConfigurationError

datatype exn = DKBRoboError kind string | AttributeError string | PyError string string

fun message :: "exn \<Rightarrow> string" where
  "message (DKBRoboError k m) = m"
| "message (AttributeError m) = m"
| "message (PyError c m) = m"

fun is_DKBRoboError :: "exn \<Rightarrow> bool" where
  "is_DKBRoboError (DKBRoboError k m) = True"
| "is_DKBRoboError (AttributeError m) = False"
| "is_DKBRoboError (PyError c m) = False"

text \<open>
  The MFA device selector is \<open>None\<close>, an integer, or a string (the CLI hands over
  what the user typed).
\<close>

datatype mfa_device = MfaNone | MfaInt int | MfaStr string

text \<open>
  The two variants. \<open>dkb_robo.legacy.Wrapper\<close> and \<open>dkb_robo.api.Wrapper\<close> are
  outside the sources verified here; a wrapper object is the variant together with the
  keyword arguments its constructor receives on lines 47 and 51 (the logger apart).
  The constructors are taken to store their arguments and nothing more.
\<close>

datatype wrapper =
    LegacyWrapper "string option" "string option" bool pydict
  | ApiWrapper "string option" "string option" pydict mfa_device

datatype variant = Legacy | API

fun variant_of :: "wrapper \<Rightarrow> variant" where
  "variant_of (LegacyWrapper u p t px) = Legacy"
| "variant_of (ApiWrapper u p px m) = API"

text \<open>
  The attributes of a \<open>DKBRobo\<close> instance (lines 17-26). \<open>logger\<close> keeps the
  debug flag the logger was set up with.
\<close>

record dkbrobo =
  legacy_login :: bool
  dkb_user :: "string option"
  dkb_password :: "string option"
  proxies :: pydict
  last_login :: "string option"
  mfa_device :: mfa_device
  account_dic :: account_dic
  tan_insert :: bool
  logger :: "bool option"
  wrapper :: "wrapper option"

text \<open>The class-level defaults of lines 17-26.\<close>

definition class_defaults :: dkbrobo where
  "class_defaults =
     \<lparr>legacy_login = False, dkb_user = None, dkb_password = None, proxies = [],
      last_login = None, mfa_device = MfaInt 0, account_dic = [], tan_insert = False,
      logger = None, wrapper = None\<rparr>"

text \<open>\<open>__init__\<close> (lines 28-34): six assignments on top of the class defaults.\<close>

definition init ::
  "string option \<Rightarrow> string option \<Rightarrow> bool \<Rightarrow> bool \<Rightarrow> bool \<Rightarrow> mfa_device \<Rightarrow> dkbrobo" where
  "init user password tan legacy debug mfa =
     class_defaults\<lparr>dkb_user := user, dkb_password := password, tan_insert := tan,
       legacy_login := legacy, logger := Some debug, mfa_device := mfa\<rparr>"

section \<open>The collaborators: variants and the outside world\<close>

text \<open>
  Every call the facade makes to a collaborator is recorded, in order: a call of the
  date validator with its four arguments, or a call of a method of a wrapper object.
\<close>

datatype call =
    Login
  | Logout
  | GetCreditLimits
  | GetExemptionOrder
  | GetPoints
  | GetStandingOrders "string option"
  | GetTransactions string string string string string
  | ScanPostbox "string option" bool bool bool

datatype event = EvValidate string string nat bool | EvCall wrapper call

text \<open>
  The world: \<open>net\<close> is whatever state the portal and the network session hold,
  \<open>calls\<close> the record of collaborator calls made so far.
\<close>

record 'w world =
  net :: 'w
  calls :: "event list"

text \<open>
  What the methods of a wrapper do is outside the sources verified here, so it is a
  parameter: each method takes the wrapper object and the state of the network, and
  returns a value or raises, with the new state of the network.
\<close>

record 'w portal =
  login_impl :: "wrapper \<Rightarrow> 'w \<Rightarrow> (exn + account_dic \<times> string) \<times> 'w"
  logout_impl :: "wrapper \<Rightarrow> 'w \<Rightarrow> (exn + unit) \<times> 'w"
  get_credit_limits_impl :: "wrapper \<Rightarrow> 'w \<Rightarrow> (exn + pydict) \<times> 'w"
  get_exemption_order_impl :: "wrapper \<Rightarrow> 'w \<Rightarrow> (exn + pydict) \<times> 'w"
  get_points_impl :: "wrapper \<Rightarrow> 'w \<Rightarrow> (exn + pydict) \<times> 'w"
  get_standing_orders_impl :: "wrapper \<Rightarrow> string option \<Rightarrow> 'w \<Rightarrow> (exn + pydict list) \<times> 'w"
  get_transactions_impl ::
    "wrapper \<Rightarrow> string \<Rightarrow> string \<Rightarrow> string \<Rightarrow> string \<Rightarrow> string \<Rightarrow> 'w
       \<Rightarrow> (exn + transaction list) \<times> 'w"
  scan_postbox_impl ::
    "wrapper \<Rightarrow> string option \<Rightarrow> bool \<Rightarrow> bool \<Rightarrow> bool \<Rightarrow> 'w \<Rightarrow> (exn + pydict) \<times> 'w"

text \<open>
  \<open>self.wrapper.m(...)\<close>: on \<open>None\<close> the attribute lookup raises and nothing is
  called; otherwise the method runs on the network and the call is recorded.
\<close>

definition invoke ::
  "wrapper option \<Rightarrow> call \<Rightarrow> (wrapper \<Rightarrow> 'w \<Rightarrow> (exn + 'a) \<times> 'w) \<Rightarrow> 'w world
     \<Rightarrow> (exn + 'a) \<times> 'w world" where
  "invoke wo c f wd =
     (case wo of
        None \<Rightarrow> (Inl (AttributeError ''NoneType object has no attribute''), wd)
      | Some w \<Rightarrow>
          (case f w (net wd) of
             (r, n) \<Rightarrow> (r, \<lparr>net = n, calls = calls wd @ [EvCall w c]\<rparr>)))"

section \<open>The facade\<close>

text \<open>
  \<open>__enter__\<close> (lines 36-56). The result is what the method returns or raises, the
  instance as the method leaves it, and the world.
\<close>

definition enter :: "'w portal \<Rightarrow> dkbrobo \<Rightarrow> 'w world \<Rightarrow> (exn + unit) \<times> dkbrobo \<times> 'w world" where
  "enter P s wd =
     (let s1 = (if tan_insert s then s\<lparr>legacy_login := True\<rparr> else s);
          s2 = (if mfa_device s1 = MfaStr ''m'' then s1\<lparr>mfa_device := MfaInt 1\<rparr> else s1);
          s3 = (if legacy_login s2
                then s2\<lparr>wrapper := Some (LegacyWrapper (dkb_user s2) (dkb_password s2)
                                          (tan_insert s2) (proxies s2))\<rparr>
                else s2\<lparr>wrapper := Some (ApiWrapper (dkb_user s2) (dkb_password s2)
                                          (proxies s2) (mfa_device s2))\<rparr>)
      in case invoke (wrapper s3) Login (login_impl P) wd of
           (Inl e, wd') \<Rightarrow> (Inl e, s3, wd')
         | (Inr (ad, ll), wd') \<Rightarrow>
             (Inr (), s3\<lparr>account_dic := ad, last_login := Some ll\<rparr>, wd'))"

text \<open>\<open>__exit__\<close> (lines 58-60).\<close>

definition exit :: "'w portal \<Rightarrow> dkbrobo \<Rightarrow> 'w world \<Rightarrow> (exn + unit) \<times> dkbrobo \<times> 'w world" where
  "exit P s wd = (case invoke (wrapper s) Logout (logout_impl P) wd of (r, wd') \<Rightarrow> (r, s, wd'))"

text \<open>
  The pass-through read operations (lines 62-80 and 96-99). Logging apart, each is one
  call of the wrapper's method of the same name; the instance is not assigned to.
\<close>

definition get_credit_limits ::
  "'w portal \<Rightarrow> dkbrobo \<Rightarrow> 'w world \<Rightarrow> (exn + pydict) \<times> dkbrobo \<times> 'w world" where
  "get_credit_limits P s wd =
     (case invoke (wrapper s) GetCreditLimits (get_credit_limits_impl P) wd of
        (r, wd') \<Rightarrow> (r, s, wd'))"

definition get_exemption_order ::
  "'w portal \<Rightarrow> dkbrobo \<Rightarrow> 'w world \<Rightarrow> (exn + pydict) \<times> dkbrobo \<times> 'w world" where
  "get_exemption_order P s wd =
     (case invoke (wrapper s) GetExemptionOrder (get_exemption_order_impl P) wd of
        (r, wd') \<Rightarrow> (r, s, wd'))"

definition get_points ::
  "'w portal \<Rightarrow> dkbrobo \<Rightarrow> 'w world \<Rightarrow> (exn + pydict) \<times> dkbrobo \<times> 'w world" where
  "get_points P s wd =
     (case invoke (wrapper s) GetPoints (get_points_impl P) wd of
        (r, wd') \<Rightarrow> (r, s, wd'))"

definition get_standing_orders ::
  "'w portal \<Rightarrow> dkbrobo \<Rightarrow> string option \<Rightarrow> 'w world
     \<Rightarrow> (exn + pydict list) \<times> dkbrobo \<times> 'w world" where
  "get_standing_orders P s uid wd =
     (case invoke (wrapper s) (GetStandingOrders uid)
             (\<lambda>w. get_standing_orders_impl P w uid) wd of
        (r, wd') \<Rightarrow> (r, s, wd'))"

definition scan_postbox ::
  "'w portal \<Rightarrow> dkbrobo \<Rightarrow> string option \<Rightarrow> bool \<Rightarrow> bool \<Rightarrow> bool \<Rightarrow> 'w world
     \<Rightarrow> (exn + pydict) \<times> dkbrobo \<times> 'w world" where
  "scan_postbox P s path download_all archive prepend_date wd =
     (case invoke (wrapper s) (ScanPostbox path download_all archive prepend_date)
             (\<lambda>w. scan_postbox_impl P w path download_all archive prepend_date) wd of
        (r, wd') \<Rightarrow> (r, s, wd'))"

text \<open>
  \<open>get_transactions\<close> (lines 82-94). \<open>validate_dates\<close> is imported from
  \<open>dkb_robo.utilities\<close>, which is outside the sources verified here, so the validator
  is a parameter \<open>vd\<close>: it takes the two dates, the span limit and the legacy flag, and
  returns the pair of dates to use or raises. Line 89 calls it with the literal \<open>3\<close>
  and \<open>self.legacy_login\<close>; the dates it returns are the ones handed to the wrapper.
\<close>

type_synonym validator = "string \<Rightarrow> string \<Rightarrow> nat \<Rightarrow> bool \<Rightarrow> exn + string \<times> string"

definition get_transactions ::
  "validator \<Rightarrow> 'w portal \<Rightarrow> dkbrobo \<Rightarrow> string \<Rightarrow> string \<Rightarrow> string \<Rightarrow> string \<Rightarrow> string
     \<Rightarrow> 'w world \<Rightarrow> (exn + transaction list) \<times> dkbrobo \<times> 'w world" where
  "get_transactions vd P s transaction_url atype date_from date_to transaction_type wd =
     (let wd1 = wd\<lparr>calls := calls wd @ [EvValidate date_from date_to 3 (legacy_login s)]\<rparr>
      in case vd date_from date_to 3 (legacy_login s) of
           Inl e \<Rightarrow> (Inl e, s, wd1)
         | Inr (date_from', date_to') \<Rightarrow>
             (case invoke (wrapper s)
                     (GetTransactions transaction_url atype date_from' date_to' transaction_type)
                     (\<lambda>w. get_transactions_impl P w transaction_url atype date_from' date_to'
                             transaction_type) wd1 of
                (transaction_list, wd2) \<Rightarrow> (transaction_list, s, wd2)))"

text \<open>
  The \<open>with\<close> statement of Python, as \<open>cli.py\<close> uses the facade
  (\<open>with _login(ctx) as dkb: body\<close>): \<open>__enter__\<close> runs first, and when it raises
  neither the body nor \<open>__exit__\<close> runs. Otherwise the body runs; \<open>__exit__\<close>
  runs afterwards whether the body returned or raised. \<open>__exit__\<close> returns
  \<open>None\<close>, so an error of the body is raised again after it, and an error raised by
  \<open>__exit__\<close> itself takes the place of the body's outcome.
\<close>

definition with_dkb ::
  "'w portal \<Rightarrow> dkbrobo \<Rightarrow> (dkbrobo \<Rightarrow> 'w world \<Rightarrow> (exn + 'a) \<times> dkbrobo \<times> 'w world)
     \<Rightarrow> 'w world \<Rightarrow> (exn + 'a) \<times> dkbrobo \<times> 'w world" where
  "with_dkb P s body wd =
     (case enter P s wd of
        (Inl e, s1, wd1) \<Rightarrow> (Inl e, s1, wd1)
      | (Inr u, s1, wd1) \<Rightarrow>
          (case body s1 wd1 of
             (r, s2, wd2) \<Rightarrow>
               (case exit P s2 wd2 of
                  (Inl e, s3, wd3) \<Rightarrow> (Inl e, s3, wd3)
                | (Inr u', s3, wd3) \<Rightarrow> (r, s3, wd3))))"

section \<open>The date validator of the specification\<close>

text \<open>
  Modelled from the spec: \<open>validate_dates\<close> of \<open>dkb_robo.utilities\<close> is not
  part of the sources verified here. Section 4.2 of the specification: both dates are parsed
  under one fixed format (\<open>dd.mm.yyyy\<close>, the format of \<open>cli.py\<close>), malformed input
  fails with \<open>DateFormatError\<close>; \<open>date_from > date_to\<close> fails with
  \<open>DateRangeError\<close>; a span of more than \<open>max_span_years\<close> calendar years fails
  with \<open>DateRangeError\<close>; otherwise the dates are returned unchanged. The
  specification gives the legacy flag no effect. It serves as a concrete validator
  where one is needed.
\<close>

definition digit_of :: "char \<Rightarrow> nat option" where
  "digit_of c =
     (let n = (of_char c :: nat) in if 48 \<le> n \<and> n \<le> 57 then Some (n - 48) else None)"

fun number_of :: "nat \<Rightarrow> string \<Rightarrow> nat option" where
  "number_of acc [] = Some acc"
| "number_of acc (c # cs) =
     (case digit_of c of None \<Rightarrow> None | Some d \<Rightarrow> number_of (10 * acc + d) cs)"

definition parse_number :: "string \<Rightarrow> nat option" where
  "parse_number s = (if s = [] then None else number_of 0 s)"

fun split_dots :: "string \<Rightarrow> string list" where
  "split_dots [] = [[]]"
| "split_dots (c # cs) =
     (if c = CHR ''.'' then [] # split_dots cs
      else (case split_dots cs of [] \<Rightarrow> [[c]] | f # fs \<Rightarrow> (c # f) # fs))"

definition leap_year :: "nat \<Rightarrow> bool" where
  "leap_year y =
     (if y mod 400 = 0 then True else if y mod 100 = 0 then False else y mod 4 = 0)"

definition days_in_month :: "nat \<Rightarrow> nat \<Rightarrow> nat" where
  "days_in_month y m =
     (if m = 2 then (if leap_year y then 29 else 28)
      else if m = 4 \<or> m = 6 \<or> m = 9 \<or> m = 11 then 30
      else 31)"

text \<open>A parsed date is (year, month, day).\<close>

definition parse_date :: "string \<Rightarrow> (nat \<times> nat \<times> nat) option" where
  "parse_date s =
     (case map parse_number (split_dots s) of
        [Some d, Some m, Some y] \<Rightarrow>
          (if 1 \<le> m \<and> m \<le> 12 \<and> 1 \<le> d \<and> d \<le> days_in_month y m then Some (y, m, d)
           else None)
      | _ \<Rightarrow> None)"

fun date_less :: "nat \<times> nat \<times> nat \<Rightarrow> nat \<times> nat \<times> nat \<Rightarrow> bool" where
  "date_less (y1, m1, d1) (y2, m2, d2) =
     (y1 < y2 \<or> (y1 = y2 \<and> (m1 < m2 \<or> (m1 = m2 \<and> d1 < d2))))"

fun add_years :: "nat \<times> nat \<times> nat \<Rightarrow> nat \<Rightarrow> nat \<times> nat \<times> nat" where
  "add_years (y, m, d) n = (y + n, m, d)"

text \<open>
  Modelled from the spec: the validator of section 4.2, standing in for
  \<open>validate_dates\<close> of \<open>dkb_robo.utilities\<close>, with the checks in the order
  the section lists them.
\<close>

definition validate_dates :: validator where
  "validate_dates date_from date_to max_span_years legacy_flag =
     (case (parse_date date_from, parse_date date_to) of
        (Some f, Some t) \<Rightarrow>
          (if date_less t f then Inl (DKBRoboError DateRangeError ''date_from after date_to'')
           else if date_less (add_years f max_span_years) t
           then Inl (DKBRoboError DateRangeError ''date range exceeds the maximum span'')
           else Inr (date_from, date_to))
      | _ \<Rightarrow> Inl (DKBRoboError DateFormatError ''malformed date''))"

section \<open>Concrete portals\<close>

text \<open>
  Scripted variants over a network whose state is the number of requests served so far.
  \<open>portal_ok\<close> logs in with one account and answers every read; asked for booked
  transactions it returns \<open>txs\<close>, asked for any other type it returns none.
  \<open>portal_login_fails e\<close> differs in that its login raises \<open>e\<close>.
\<close>

definition demo_accounts :: account_dic where
  "demo_accounts =
     [(0, [(''name'', ''Girokonto''), (''account'', ''DE02120300000000202051''),
           (''type'', ''account''), (''transactions'', ''https://portal/tx/0'')])]"

definition portal_ok :: "transaction list \<Rightarrow> nat portal" where
  "portal_ok txs =
     \<lparr>login_impl = (\<lambda>w n. (Inr (demo_accounts, ''01.01.2024 10:00''), Suc n)),
      logout_impl = (\<lambda>w n. (Inr (), Suc n)),
      get_credit_limits_impl = (\<lambda>w n. (Inr [(''DE02120300000000202051'', ''1000.00'')], Suc n)),
      get_exemption_order_impl = (\<lambda>w n. (Inr [], Suc n)),
      get_points_impl = (\<lambda>w n. (Inr [(''DKB-Punkte'', ''100'')], Suc n)),
      get_standing_orders_impl = (\<lambda>w uid n. (Inr [], Suc n)),
      get_transactions_impl =
        (\<lambda>w url atype df dt tt n. (Inr (if tt = ''booked'' then txs else []), Suc n)),
      scan_postbox_impl = (\<lambda>w path da ar pd n. (Inr [], Suc n))\<rparr>"

definition portal_login_fails :: "exn \<Rightarrow> nat portal" where
  "portal_login_fails e = (portal_ok [])\<lparr>login_impl := (\<lambda>w n. (Inl e, Suc n))\<rparr>"

definition world0 :: "nat world" where
  "world0 = \<lparr>net = 0, calls = []\<rparr>"

definition five_booked :: "transaction list" where
  "five_booked =
     [[(''date'', ''02.01.2024''), (''amount'', ''-10.00'')],
      [(''date'', ''15.01.2024''), (''amount'', ''250.00'')],
      [(''date'', ''01.02.2024''), (''amount'', ''-42.50'')],
      [(''date'', ''01.02.2024''), (''amount'', ''-42.50'')],
      [(''date'', ''28.02.2024''), (''amount'', ''-7.99'')]]"

text \<open>\<open>portal_all_fail e\<close>: every method of the variant raises \<open>e\<close>.\<close>

definition portal_all_fail :: "exn \<Rightarrow> nat portal" where
  "portal_all_fail e =
     \<lparr>login_impl = (\<lambda>w n. (Inl e, Suc n)),
      logout_impl = (\<lambda>w n. (Inl e, Suc n)),
      get_credit_limits_impl = (\<lambda>w n. (Inl e, Suc n)),
      get_exemption_order_impl = (\<lambda>w n. (Inl e, Suc n)),
      get_points_impl = (\<lambda>w n. (Inl e, Suc n)),
      get_standing_orders_impl = (\<lambda>w uid n. (Inl e, Suc n)),
      get_transactions_impl = (\<lambda>w url atype df dt tt n. (Inl e, Suc n)),
      scan_postbox_impl = (\<lambda>w path da ar pd n. (Inl e, Suc n))\<rparr>"

text \<open>
  Two configurations as the CLI builds them, with and without TAN insertion, and the
  instances they become once entered against \<open>portal_ok five_booked\<close>.
\<close>

definition legacy_config :: dkbrobo where
  "legacy_config = init (Some ''user'') (Some ''secret'') True False False MfaNone"

definition api_config :: dkbrobo where
  "api_config = init (Some ''user'') (Some ''secret'') False False False (MfaStr ''m'')"

definition legacy_session :: dkbrobo where
  "legacy_session = fst (snd (enter (portal_ok five_booked) legacy_config world0))"

definition api_session :: dkbrobo where
  "api_session = fst (snd (enter (portal_ok five_booked) api_config world0))"

text \<open>
  A later state of the portal: its login returns a directory with a second account and
  a later last-login time; everything else is as in \<open>portal_ok\<close>.
\<close>

definition later_accounts :: account_dic where
  "later_accounts =
     demo_accounts @
     [(1, [(''name'', ''Tagesgeld''), (''account'', ''DE02120300000000202052''),
           (''type'', ''account''), (''transactions'', ''https://portal/tx/1'')])]"

definition portal_later :: "nat portal" where
  "portal_later =
     (portal_ok [])\<lparr>login_impl := (\<lambda>w n. (Inr (later_accounts, ''05.02.2024 08:30''), Suc n))\<rparr>"

section \<open>Basic facts about the facade\<close>

text \<open>
  \<open>enter_unfold\<close> gives \<open>__enter__\<close> in one piece: the wrapper it builds, the
  instance it leaves, the one call it makes. The lemmas after it read off single
  components.
\<close>

lemma invoke_Some:
  "invoke (Some w) c f wd =
     (fst (f w (net wd)), \<lparr>net = snd (f w (net wd)), calls = calls wd @ [EvCall w c]\<rparr>)"
  by (simp add: invoke_def split: prod.split)

lemma invoke_None:
  "invoke None c f wd = (Inl (AttributeError ''NoneType object has no attribute''), wd)"
  by (simp add: invoke_def)

lemma enter_unfold:
  "enter P s wd =
     (let w = (if tan_insert s \<or> legacy_login s
               then LegacyWrapper (dkb_user s) (dkb_password s) (tan_insert s) (proxies s)
               else ApiWrapper (dkb_user s) (dkb_password s) (proxies s)
                      (if mfa_device s = MfaStr ''m'' then MfaInt 1 else mfa_device s));
          s3 = s\<lparr>legacy_login := tan_insert s \<or> legacy_login s,
                 mfa_device := (if mfa_device s = MfaStr ''m'' then MfaInt 1 else mfa_device s),
                 wrapper := Some w\<rparr>;
          wd' = \<lparr>net = snd (login_impl P w (net wd)), calls = calls wd @ [EvCall w Login]\<rparr>
      in case fst (login_impl P w (net wd)) of
           Inl e \<Rightarrow> (Inl e, s3, wd')
         | Inr (ad, ll) \<Rightarrow> (Inr (), s3\<lparr>account_dic := ad, last_login := Some ll\<rparr>, wd'))"
  by (cases "tan_insert s"; cases "legacy_login s"; cases "mfa_device s = MfaStr ''m''";
      simp add: enter_def Let_def invoke_Some split: sum.split prod.split)

lemma enter_wrapper:
  "wrapper (fst (snd (enter P s wd))) =
     Some (if tan_insert s \<or> legacy_login s
           then LegacyWrapper (dkb_user s) (dkb_password s) (tan_insert s) (proxies s)
           else ApiWrapper (dkb_user s) (dkb_password s) (proxies s)
                  (if mfa_device s = MfaStr ''m'' then MfaInt 1 else mfa_device s))"
  by (simp add: enter_unfold Let_def split: sum.split prod.split)

lemma enter_flags:
  "legacy_login (fst (snd (enter P s wd))) = (tan_insert s \<or> legacy_login s)"
  "tan_insert (fst (snd (enter P s wd))) = tan_insert s"
  "mfa_device (fst (snd (enter P s wd))) =
     (if mfa_device s = MfaStr ''m'' then MfaInt 1 else mfa_device s)"
  by (simp_all add: enter_unfold Let_def split: sum.split prod.split)

lemma enter_calls:
  "wrapper (fst (snd (enter P s wd))) = Some w \<Longrightarrow>
   calls (snd (snd (enter P s wd))) = calls wd @ [EvCall w Login]"
  unfolding enter_wrapper by (simp add: enter_unfold Let_def split: sum.split prod.split)

lemma enter_raises:
  "wrapper (fst (snd (enter P s wd))) = Some w \<Longrightarrow> fst (login_impl P w (net wd)) = Inl e \<Longrightarrow>
   fst (enter P s wd) = Inl e \<and>
   account_dic (fst (snd (enter P s wd))) = account_dic s \<and>
   last_login (fst (snd (enter P s wd))) = last_login s"
  unfolding enter_wrapper by (simp add: enter_unfold Let_def)

lemma enter_returns:
  "wrapper (fst (snd (enter P s wd))) = Some w \<Longrightarrow>
   fst (login_impl P w (net wd)) = Inr (ad, ll) \<Longrightarrow>
   fst (enter P s wd) = Inr () \<and>
   account_dic (fst (snd (enter P s wd))) = ad \<and>
   last_login (fst (snd (enter P s wd))) = Some ll"
  unfolding enter_wrapper by (simp add: enter_unfold Let_def)

lemma variant_of_selected:
  "variant_of (if b then LegacyWrapper u p t px else ApiWrapper u p px m) =
     (if b then Legacy else API)"
  by simp

lemma exit_unfold:
  "wrapper s = Some w \<Longrightarrow>
   exit P s wd = (fst (logout_impl P w (net wd)), s,
                  \<lparr>net = snd (logout_impl P w (net wd)), calls = calls wd @ [EvCall w Logout]\<rparr>)"
  by (simp add: exit_def invoke_Some)

lemma with_dkb_raises:
  "fst (enter P s wd) = Inl e \<Longrightarrow>
   fst (with_dkb P s body wd) = Inl e \<and> snd (with_dkb P s body wd) = snd (enter P s wd)"
  by (cases "enter P s wd") (auto simp: with_dkb_def)

lemma with_dkb_entered:
  assumes "fst (enter P s wd) = Inr u"
    and "body (fst (snd (enter P s wd))) (snd (snd (enter P s wd))) = (r, s2, wd2)"
    and "wrapper s2 = Some w"
  shows "calls (snd (snd (with_dkb P s body wd))) = calls wd2 @ [EvCall w Logout]"
proof -
  obtain s1 wd1 where e: "enter P s wd = (Inr u, s1, wd1)"
    using assms(1) by (cases "enter P s wd") auto
  with assms(2) have b: "body s1 wd1 = (r, s2, wd2)" by simp
  show ?thesis
    by (simp add: with_dkb_def e b exit_unfold [OF assms(3)] split: sum.split)
qed

lemma get_transactions_rejected:
  "vd df dt 3 (legacy_login s) = Inl e \<Longrightarrow>
   get_transactions vd P s url atype df dt tt wd =
     (Inl e, s, wd\<lparr>calls := calls wd @ [EvValidate df dt 3 (legacy_login s)]\<rparr>)"
  by (simp add: get_transactions_def Let_def)

lemma get_transactions_accepted:
  "vd df dt 3 (legacy_login s) = Inr (df', dt') \<Longrightarrow> wrapper s = Some w \<Longrightarrow>
   get_transactions vd P s url atype df dt tt wd =
     (fst (get_transactions_impl P w url atype df' dt' tt (net wd)), s,
      \<lparr>net = snd (get_transactions_impl P w url atype df' dt' tt (net wd)),
       calls = calls wd @ [EvValidate df dt 3 (legacy_login s),
                           EvCall w (GetTransactions url atype df' dt' tt)]\<rparr>)"
  by (simp add: get_transactions_def Let_def invoke_Some)

lemma get_transactions_calls_prefix:
  "\<exists>rest. calls (snd (snd (get_transactions vd P s url atype df dt tt wd))) =
            calls wd @ EvValidate df dt 3 (legacy_login s) # rest"
  by (cases "wrapper s")
     (auto simp: get_transactions_def Let_def invoke_Some invoke_None split: sum.split)

section \<open>The concrete configurations, evaluated\<close>

lemma validate_scenario_ok:
  "validate_dates ''01.01.2024'' ''01.03.2024'' 3 False = Inr (''01.01.2024'', ''01.03.2024'')"
  by code_simp

lemma validate_scenario_ok_legacy:
  "validate_dates ''01.01.2024'' ''01.03.2024'' 3 True = Inr (''01.01.2024'', ''01.03.2024'')"
  by code_simp

lemma validate_scenario_too_long:
  "validate_dates ''10.01.2020'' ''10.01.2030'' 3 False =
     Inl (DKBRoboError DateRangeError ''date range exceeds the maximum span'')"
  by code_simp

lemma api_session_wrapper:
  "wrapper api_session = Some (ApiWrapper (Some ''user'') (Some ''secret'') [] (MfaInt 1))"
  "legacy_login api_session = False"
  by (simp_all add: api_session_def api_config_def enter_wrapper enter_flags init_def class_defaults_def)

lemma legacy_session_wrapper:
  "wrapper legacy_session = Some (LegacyWrapper (Some ''user'') (Some ''secret'') True [])"
  "legacy_login legacy_session = True"
  by (simp_all add: legacy_session_def legacy_config_def enter_wrapper enter_flags init_def class_defaults_def)

lemma enter_api_config:
  "enter (portal_ok five_booked) api_config world0 =
     (Inr (), api_session,
      \<lparr>net = Suc 0,
       calls = [EvCall (ApiWrapper (Some ''user'') (Some ''secret'') [] (MfaInt 1)) Login]\<rparr>)"
  by (simp add: api_session_def enter_unfold Let_def api_config_def init_def class_defaults_def
        portal_ok_def world0_def)

lemma enter_legacy_config_fails:
  "fst (enter (portal_login_fails e) legacy_config world0) = Inl e"
  "calls (snd (snd (enter (portal_login_fails e) legacy_config world0))) =
     [EvCall (LegacyWrapper (Some ''user'') (Some ''secret'') True []) Login]"
  by (simp_all add: enter_unfold Let_def legacy_config_def init_def class_defaults_def
        portal_login_fails_def world0_def)

section \<open>Variant selection and scope entry\<close>

text \<open>
  Claim C1, as the code has it. Whatever the configuration, the portal and the world,
  entering the scope builds exactly one wrapper and then makes exactly one call, the
  login on that wrapper, so the variant is fixed before anything reaches the network.
  The variant is Legacy when the TAN-insertion flag or the legacy-login flag of the
  instance is set, and API when neither is. Entering the same instance again, against
  any portal and world, selects the same variant.
\<close>

theorem variant_selection:
  "\<exists>w. wrapper (fst (snd (enter P s wd))) = Some w \<and>
       variant_of w = (if tan_insert s \<or> legacy_login s then Legacy else API) \<and>
       calls (snd (snd (enter P s wd))) = calls wd @ [EvCall w Login] \<and>
       (\<exists>w'. wrapper (fst (snd (enter P' (fst (snd (enter P s wd))) wd'))) = Some w' \<and>
             variant_of w' = variant_of w)"
proof -
  let ?s = "fst (snd (enter P s wd))"
  obtain w where w: "wrapper ?s = Some w"
    and v: "variant_of w = (if tan_insert s \<or> legacy_login s then Legacy else API)"
    using enter_wrapper [of P s wd] variant_of_selected by metis
  obtain w' where w': "wrapper (fst (snd (enter P' ?s wd'))) = Some w'"
    and v': "variant_of w' = (if tan_insert ?s \<or> legacy_login ?s then Legacy else API)"
    using enter_wrapper [of P' ?s wd'] variant_of_selected by metis
  from v v' have "variant_of w' = variant_of w" by (simp add: enter_flags)
  with w v w' enter_calls [OF w] show ?thesis by blast
qed

text \<open>
  Claim C1 as stated fails: with the TAN-insertion flag false and the legacy-login
  flag of the constructor true (what \<open>_login\<close> of \<open>cli.py\<close> builds under
  \<open>--debug\<close>, its fourth positional argument being \<open>legacy_login\<close>), the
  Legacy variant is selected.
\<close>

theorem variant_selection_counterexample:
  "tan_insert (init (Some ''user'') (Some ''secret'') False True False MfaNone) = False \<and>
   map_option variant_of
     (wrapper (fst (snd (enter (portal_ok [])
        (init (Some ''user'') (Some ''secret'') False True False MfaNone) world0)))) =
     Some Legacy \<and>
   Legacy \<noteq> API"
  by (simp add: enter_wrapper init_def class_defaults_def)

text \<open>
  Claim C8. A constructed instance has no wrapper, an empty account directory and no
  last-login value; \<open>init\<close> neither takes nor returns the world, so it makes no
  call. The wrapper appears with scope entry, whose only call is the login on it.
\<close>

theorem init_no_variant:
  "wrapper (init user password tan legacy debug mfa) = None \<and>
   account_dic (init user password tan legacy debug mfa) = [] \<and>
   last_login (init user password tan legacy debug mfa) = None \<and>
   (\<exists>w. wrapper (fst (snd (enter P (init user password tan legacy debug mfa) wd))) = Some w \<and>
        calls (snd (snd (enter P (init user password tan legacy debug mfa) wd))) =
          calls wd @ [EvCall w Login])"
proof -
  have "wrapper (init user password tan legacy debug mfa) = None"
       "account_dic (init user password tan legacy debug mfa) = []"
       "last_login (init user password tan legacy debug mfa) = None"
    by (simp_all add: init_def class_defaults_def)
  moreover obtain w where
    "wrapper (fst (snd (enter P (init user password tan legacy debug mfa) wd))) = Some w"
    using enter_wrapper by blast
  ultimately show ?thesis using enter_calls by blast
qed

text \<open>
  Claim C10. Scope entry leaves the legacy-login flag true whenever the TAN-insertion
  flag was true (and otherwise as it was), turns the device selector \<open>'m'\<close> into
  the integer 1 and leaves any other selector alone; the wrapper is built from the
  values so normalised. \<open>__exit__\<close> hands the instance back as it received it, so
  both changes outlive the scope.
\<close>

theorem enter_normalises:
  "legacy_login (fst (snd (enter P s wd))) = (tan_insert s \<or> legacy_login s) \<and>
   mfa_device (fst (snd (enter P s wd))) =
     (if mfa_device s = MfaStr ''m'' then MfaInt 1 else mfa_device s) \<and>
   wrapper (fst (snd (enter P s wd))) =
     Some (if tan_insert s \<or> legacy_login s
           then LegacyWrapper (dkb_user s) (dkb_password s) (tan_insert s) (proxies s)
           else ApiWrapper (dkb_user s) (dkb_password s) (proxies s)
                  (if mfa_device s = MfaStr ''m'' then MfaInt 1 else mfa_device s)) \<and>
   fst (snd (exit P' (fst (snd (enter P s wd))) wd')) = fst (snd (enter P s wd))"
  by (simp add: enter_flags enter_wrapper exit_def split: prod.split)

section \<open>Logout on the exit paths\<close>

text \<open>
  Claim C2, as the code has it. When the scope has been entered, whatever the body
  returns or raises (\<open>r\<close> is either), the scope ends with exactly one more call,
  the logout on the instance's wrapper. When the login of scope entry raises, the
  \<open>with\<close> statement raises the same error and the only call made is that login:
  no logout is attempted.
\<close>

theorem logout_on_exit:
  "(fst (enter P s wd) = Inr () \<longrightarrow>
    body (fst (snd (enter P s wd))) (snd (snd (enter P s wd))) = (r, s2, wd2) \<longrightarrow>
    wrapper s2 = Some w \<longrightarrow>
      calls (snd (snd (with_dkb P s body wd))) = calls wd2 @ [EvCall w Logout]) \<and>
   (fst (enter P s wd) = Inl e \<longrightarrow>
      fst (with_dkb P s body wd) = Inl e \<and>
      (\<exists>w'. calls (snd (snd (with_dkb P s body wd))) = calls wd @ [EvCall w' Login]))"
proof -
  obtain w' where "wrapper (fst (snd (enter P s wd))) = Some w'"
    using enter_wrapper by blast
  then have "calls (snd (snd (enter P s wd))) = calls wd @ [EvCall w' Login]"
    by (rule enter_calls)
  then show ?thesis
    using with_dkb_entered [of P s wd "()" body r s2 wd2 w] with_dkb_raises [of P s wd e body]
    by auto
qed

text \<open>
  Both halves at concrete inputs: a body whose date range is rejected, under a portal
  that logs in; and a portal whose login raises for want of MFA confirmation.
\<close>

theorem logout_on_exit_witness:
  "calls (snd (snd (with_dkb (portal_ok five_booked) api_config
       (\<lambda>s. get_transactions validate_dates (portal_ok five_booked) s
              ''https://portal/tx/0'' ''account'' ''10.01.2020'' ''10.01.2030'' ''booked'')
       world0))) =
     [EvCall (ApiWrapper (Some ''user'') (Some ''secret'') [] (MfaInt 1)) Login,
      EvValidate ''10.01.2020'' ''10.01.2030'' 3 False,
      EvCall (ApiWrapper (Some ''user'') (Some ''secret'') [] (MfaInt 1)) Logout] \<and>
   fst (with_dkb (portal_login_fails (DKBRoboError MFARequiredError ''no confirmation''))
          legacy_config (get_credit_limits (portal_ok five_booked)) world0) =
     Inl (DKBRoboError MFARequiredError ''no confirmation'') \<and>
   calls (snd (snd (with_dkb
       (portal_login_fails (DKBRoboError MFARequiredError ''no confirmation''))
       legacy_config (get_credit_limits (portal_ok five_booked)) world0))) =
     [EvCall (LegacyWrapper (Some ''user'') (Some ''secret'') True []) Login]"
proof -
  let ?w = "ApiWrapper (Some ''user'') (Some ''secret'') [] (MfaInt 1)"
  let ?body = "\<lambda>s. get_transactions validate_dates (portal_ok five_booked) s
              ''https://portal/tx/0'' ''account'' ''10.01.2020'' ''10.01.2030'' ''booked''"
  let ?wd2 = "\<lparr>net = Suc 0,
       calls = [EvCall ?w Login, EvValidate ''10.01.2020'' ''10.01.2030'' 3 False]\<rparr>"
  let ?e = "DKBRoboError MFARequiredError ''no confirmation''"
  have entered: "fst (enter (portal_ok five_booked) api_config world0) = Inr ()"
    by (simp add: enter_api_config)
  have body: "?body (fst (snd (enter (portal_ok five_booked) api_config world0)))
                (snd (snd (enter (portal_ok five_booked) api_config world0))) =
              (Inl (DKBRoboError DateRangeError ''date range exceeds the maximum span''),
               api_session, ?wd2)"
    by (simp add: enter_api_config get_transactions_rejected api_session_wrapper
          validate_scenario_too_long)
  have w: "wrapper api_session = Some ?w"
    by (simp add: api_session_wrapper)
  have failed: "fst (enter (portal_login_fails ?e) legacy_config world0) = Inl ?e"
    by (simp add: enter_legacy_config_fails)
  from logout_on_exit [of "portal_ok five_booked" api_config world0 ?body
      "Inl (DKBRoboError DateRangeError ''date range exceeds the maximum span'')"
      api_session ?wd2 ?w] entered body w
  have first: "calls (snd (snd (with_dkb (portal_ok five_booked) api_config ?body world0))) =
                 calls ?wd2 @ [EvCall ?w Logout]"
    by blast
  from logout_on_exit [of "portal_login_fails ?e" legacy_config world0
      "get_credit_limits (portal_ok five_booked)" _ _ _ _ ?e] failed
  have second: "fst (with_dkb (portal_login_fails ?e) legacy_config
                       (get_credit_limits (portal_ok five_booked)) world0) = Inl ?e \<and>
     (\<exists>w'. calls (snd (snd (with_dkb (portal_login_fails ?e) legacy_config
                       (get_credit_limits (portal_ok five_booked)) world0))) =
            calls world0 @ [EvCall w' Login])"
    by blast
  have third: "calls (snd (snd (with_dkb (portal_login_fails ?e) legacy_config
                       (get_credit_limits (portal_ok five_booked)) world0))) =
     [EvCall (LegacyWrapper (Some ''user'') (Some ''secret'') True []) Login]"
    using with_dkb_raises [OF failed, of "get_credit_limits (portal_ok five_booked)"]
    by (simp add: enter_legacy_config_fails)
  from first second third show ?thesis by simp
qed

text \<open>
  Claim C2 as stated fails: with TAN insertion configured and a login that raises, the
  record of calls holds the login alone, and no logout.
\<close>

theorem logout_on_exit_counterexample:
  "fst (enter (portal_login_fails (DKBRoboError MFARequiredError ''no confirmation''))
          legacy_config world0) =
     Inl (DKBRoboError MFARequiredError ''no confirmation'') \<and>
   calls (snd (snd (with_dkb
       (portal_login_fails (DKBRoboError MFARequiredError ''no confirmation''))
       legacy_config (get_credit_limits (portal_ok five_booked)) world0))) =
     [EvCall (LegacyWrapper (Some ''user'') (Some ''secret'') True []) Login] \<and>
   EvCall (LegacyWrapper (Some ''user'') (Some ''secret'') True []) Logout \<notin>
     set (calls (snd (snd (with_dkb
       (portal_login_fails (DKBRoboError MFARequiredError ''no confirmation''))
       legacy_config (get_credit_limits (portal_ok five_booked)) world0))))"
proof -
  let ?e = "DKBRoboError MFARequiredError ''no confirmation''"
  have failed: "fst (enter (portal_login_fails ?e) legacy_config world0) = Inl ?e"
    by (simp add: enter_legacy_config_fails)
  show ?thesis
    using with_dkb_raises [OF failed, of "get_credit_limits (portal_ok five_booked)"] failed
    by (simp add: enter_legacy_config_fails)
qed

text \<open>
  Claim C7. When the login of the selected wrapper raises, \<open>__enter__\<close> raises the
  same error with the account directory and the last-login value of the instance
  untouched, and the \<open>with\<close> statement raises it without running its body: the
  caller is handed no instance to read a directory from.
\<close>

theorem login_failure_leaves_no_directory:
  assumes "wrapper (fst (snd (enter P s wd))) = Some w"
    and "fst (login_impl P w (net wd)) = Inl e"
  shows "fst (enter P s wd) = Inl e \<and>
         account_dic (fst (snd (enter P s wd))) = account_dic s \<and>
         last_login (fst (snd (enter P s wd))) = last_login s \<and>
         fst (with_dkb P s body wd) = Inl e \<and>
         snd (with_dkb P s body wd) = snd (enter P s wd)"
  using enter_raises [OF assms] with_dkb_raises [of P s wd e body] by simp

text \<open>
  The scenario of the specification: TAN insertion, MFA never confirmed. The freshly
  constructed instance keeps its empty directory and absent last-login value.
\<close>

theorem login_failure_leaves_no_directory_witness:
  "fst (enter (portal_login_fails (DKBRoboError MFARequiredError ''no confirmation''))
          legacy_config world0) = Inl (DKBRoboError MFARequiredError ''no confirmation'') \<and>
   account_dic (fst (snd (enter
       (portal_login_fails (DKBRoboError MFARequiredError ''no confirmation''))
       legacy_config world0))) = [] \<and>
   last_login (fst (snd (enter
       (portal_login_fails (DKBRoboError MFARequiredError ''no confirmation''))
       legacy_config world0))) = None \<and>
   fst (with_dkb (portal_login_fails (DKBRoboError MFARequiredError ''no confirmation''))
          legacy_config (get_credit_limits (portal_ok five_booked)) world0) =
     Inl (DKBRoboError MFARequiredError ''no confirmation'')"
proof -
  let ?e = "DKBRoboError MFARequiredError ''no confirmation''"
  let ?w = "LegacyWrapper (Some ''user'') (Some ''secret'') True []"
  have w: "wrapper (fst (snd (enter (portal_login_fails ?e) legacy_config world0))) = Some ?w"
    by (simp add: enter_wrapper legacy_config_def init_def class_defaults_def)
  have f: "fst (login_impl (portal_login_fails ?e) ?w (net world0)) = Inl ?e"
    by (simp add: portal_login_fails_def)
  show ?thesis
    using login_failure_leaves_no_directory [OF w f,
        of "get_credit_limits (portal_ok five_booked)"]
    by (simp add: legacy_config_def init_def class_defaults_def)
qed

section \<open>Errors of the variant\<close>

text \<open>
  Claim C3, as the code has it. An error raised by a method of the wrapper, in any of
  the six read operations or in the login of scope entry, is what the facade operation
  raises: the same value, kind and message untouched. Nothing is translated.
\<close>

theorem errors_pass_unchanged:
  assumes "wrapper s = Some w"
  shows
  "(fst (get_credit_limits_impl P w (net wd)) = Inl e \<longrightarrow>
      fst (get_credit_limits P s wd) = Inl e) \<and>
   (fst (get_exemption_order_impl P w (net wd)) = Inl e \<longrightarrow>
      fst (get_exemption_order P s wd) = Inl e) \<and>
   (fst (get_points_impl P w (net wd)) = Inl e \<longrightarrow>
      fst (get_points P s wd) = Inl e) \<and>
   (fst (get_standing_orders_impl P w uid (net wd)) = Inl e \<longrightarrow>
      fst (get_standing_orders P s uid wd) = Inl e) \<and>
   (fst (scan_postbox_impl P w path da ar pd (net wd)) = Inl e \<longrightarrow>
      fst (scan_postbox P s path da ar pd wd) = Inl e) \<and>
   (vd df dt 3 (legacy_login s) = Inr (df', dt') \<longrightarrow>
    fst (get_transactions_impl P w url atype df' dt' tt (net wd)) = Inl e \<longrightarrow>
      fst (get_transactions vd P s url atype df dt tt wd) = Inl e) \<and>
   (wrapper (fst (snd (enter P s0 wd))) = Some w0 \<longrightarrow>
    fst (login_impl P w0 (net wd)) = Inl e \<longrightarrow>
      fst (enter P s0 wd) = Inl e)"
proof -
  have "fst (get_credit_limits P s wd) = fst (get_credit_limits_impl P w (net wd))"
    by (simp add: get_credit_limits_def assms invoke_Some)
  moreover have "fst (get_exemption_order P s wd) = fst (get_exemption_order_impl P w (net wd))"
    by (simp add: get_exemption_order_def assms invoke_Some)
  moreover have "fst (get_points P s wd) = fst (get_points_impl P w (net wd))"
    by (simp add: get_points_def assms invoke_Some)
  moreover have
    "fst (get_standing_orders P s uid wd) = fst (get_standing_orders_impl P w uid (net wd))"
    by (simp add: get_standing_orders_def assms invoke_Some)
  moreover have
    "fst (scan_postbox P s path da ar pd wd) = fst (scan_postbox_impl P w path da ar pd (net wd))"
    by (simp add: scan_postbox_def assms invoke_Some)
  ultimately show ?thesis
    using get_transactions_accepted [of vd df dt s df' dt' w P url atype tt wd]
      enter_raises [of P s0 wd w0 e] assms
    by simp
qed

text \<open>
  All seven operations against a portal every method of which raises.
\<close>

theorem errors_pass_unchanged_witness:
  "fst (get_credit_limits (portal_all_fail (DKBRoboError TransportError ''timeout''))
          api_session world0) = Inl (DKBRoboError TransportError ''timeout'') \<and>
   fst (get_exemption_order (portal_all_fail (DKBRoboError TransportError ''timeout''))
          api_session world0) = Inl (DKBRoboError TransportError ''timeout'') \<and>
   fst (get_points (portal_all_fail (DKBRoboError TransportError ''timeout''))
          api_session world0) = Inl (DKBRoboError TransportError ''timeout'') \<and>
   fst (get_standing_orders (portal_all_fail (DKBRoboError TransportError ''timeout''))
          api_session None world0) = Inl (DKBRoboError TransportError ''timeout'') \<and>
   fst (scan_postbox (portal_all_fail (DKBRoboError TransportError ''timeout''))
          api_session None False False False world0) =
     Inl (DKBRoboError TransportError ''timeout'') \<and>
   fst (get_transactions validate_dates
          (portal_all_fail (DKBRoboError TransportError ''timeout'')) api_session
          ''https://portal/tx/0'' ''account'' ''01.01.2024'' ''01.03.2024'' ''booked'' world0) =
     Inl (DKBRoboError TransportError ''timeout'') \<and>
   fst (enter (portal_all_fail (DKBRoboError TransportError ''timeout'')) api_config world0) =
     Inl (DKBRoboError TransportError ''timeout'')"
proof -
  let ?e = "DKBRoboError TransportError ''timeout''"
  let ?w = "ApiWrapper (Some ''user'') (Some ''secret'') [] (MfaInt 1)"
  have w: "wrapper api_session = Some ?w"
    by (simp add: api_session_wrapper)
  have w0: "wrapper (fst (snd (enter (portal_all_fail ?e) api_config world0))) = Some ?w"
    by (simp add: enter_wrapper api_config_def init_def class_defaults_def)
  have v: "validate_dates ''01.01.2024'' ''01.03.2024'' 3 (legacy_login api_session) =
             Inr (''01.01.2024'', ''01.03.2024'')"
    by (simp add: api_session_wrapper validate_scenario_ok)
  show ?thesis
    using errors_pass_unchanged [OF w, of "portal_all_fail ?e" world0 ?e None None
        False False False validate_dates "''01.01.2024''" "''01.03.2024''"
        "''01.01.2024''" "''01.03.2024''" "''https://portal/tx/0''" "''account''" "''booked''"
        api_config ?w] w0 v
    by (simp add: portal_all_fail_def)
qed

text \<open>
  Claim C3 as stated fails: a login that raises an error outside the
  \<open>DKBRoboError\<close> family reaches the caller as that error, not as a
  \<open>DKBRoboError\<close>.
\<close>

theorem errors_pass_unchanged_counterexample:
  "fst (enter (portal_login_fails (PyError ''ConnectionError'' ''portal unreachable''))
         (init (Some ''user'') (Some ''secret'') False False False MfaNone) world0) =
     Inl (PyError ''ConnectionError'' ''portal unreachable'') \<and>
   is_DKBRoboError (PyError ''ConnectionError'' ''portal unreachable'') = False"
  by (simp add: enter_unfold Let_def portal_login_fails_def)

section \<open>Transactions and the date validator\<close>

text \<open>
  Claim C4, as the code has it. \<open>get_transactions\<close> first calls the validator with
  the two dates, the span limit 3 and the legacy-login flag of the instance, whichever
  variant is active; and two validators that agree on these four arguments give the same
  outcome, so what a validator does under any other span limit is never consulted.
\<close>

theorem span_limit_fixed:
  "(\<exists>rest. calls (snd (snd (get_transactions vd P s url atype df dt tt wd))) =
            calls wd @ EvValidate df dt 3 (legacy_login s) # rest) \<and>
   (vd df dt 3 (legacy_login s) = vd' df dt 3 (legacy_login s) \<longrightarrow>
      get_transactions vd P s url atype df dt tt wd =
      get_transactions vd' P s url atype df dt tt wd)"
  using get_transactions_calls_prefix [of vd P s url atype df dt tt wd]
  by (simp add: get_transactions_def)

text \<open>
  The validator of the specification against one that treats every span limit as 3.
\<close>

theorem span_limit_fixed_witness:
  "validate_dates ''01.01.2021'' ''01.01.2024'' 3 (legacy_login legacy_session) =
     (\<lambda>df dt n lg. validate_dates df dt 3 lg) ''01.01.2021'' ''01.01.2024'' 3
        (legacy_login legacy_session) \<and>
   get_transactions validate_dates (portal_ok five_booked) legacy_session
     ''https://portal/tx/0'' ''account'' ''01.01.2021'' ''01.01.2024'' ''booked'' world0 =
   get_transactions (\<lambda>df dt n lg. validate_dates df dt 3 lg) (portal_ok five_booked)
     legacy_session ''https://portal/tx/0'' ''account'' ''01.01.2021'' ''01.01.2024'' ''booked''
     world0"
  using span_limit_fixed [of validate_dates "portal_ok five_booked" legacy_session
      "''https://portal/tx/0''" "''account''" "''01.01.2021''" "''01.01.2024''" "''booked''"
      world0 "\<lambda>df dt n lg. validate_dates df dt 3 lg"]
  by simp

text \<open>
  Claim C4 as stated fails: the span limit is not a parameter of the variant. An
  instance on the Legacy variant and one on the API variant both have the validator
  called with the limit 3; only the legacy flag differs.
\<close>

theorem span_limit_fixed_counterexample:
  "variant_of (LegacyWrapper (Some ''user'') (Some ''secret'') True []) = Legacy \<and>
   variant_of (ApiWrapper (Some ''user'') (Some ''secret'') [] (MfaInt 1)) = API \<and>
   calls (snd (snd (get_transactions validate_dates (portal_ok five_booked) legacy_session
     ''https://portal/tx/0'' ''account'' ''01.01.2024'' ''01.03.2024'' ''booked'' world0))) =
     [EvValidate ''01.01.2024'' ''01.03.2024'' 3 True,
      EvCall (LegacyWrapper (Some ''user'') (Some ''secret'') True [])
        (GetTransactions ''https://portal/tx/0'' ''account'' ''01.01.2024'' ''01.03.2024''
           ''booked'')] \<and>
   calls (snd (snd (get_transactions validate_dates (portal_ok five_booked) api_session
     ''https://portal/tx/0'' ''account'' ''01.01.2024'' ''01.03.2024'' ''booked'' world0))) =
     [EvValidate ''01.01.2024'' ''01.03.2024'' 3 False,
      EvCall (ApiWrapper (Some ''user'') (Some ''secret'') [] (MfaInt 1))
        (GetTransactions ''https://portal/tx/0'' ''account'' ''01.01.2024'' ''01.03.2024''
           ''booked'')]"
proof -
  have "validate_dates ''01.01.2024'' ''01.03.2024'' 3 (legacy_login legacy_session) =
          Inr (''01.01.2024'', ''01.03.2024'')"
       "validate_dates ''01.01.2024'' ''01.03.2024'' 3 (legacy_login api_session) =
          Inr (''01.01.2024'', ''01.03.2024'')"
    by (simp_all add: legacy_session_wrapper api_session_wrapper validate_scenario_ok
          validate_scenario_ok_legacy)
  then show ?thesis
    using get_transactions_accepted [of validate_dates "''01.01.2024''" "''01.03.2024''"
        legacy_session "''01.01.2024''" "''01.03.2024''"
        "LegacyWrapper (Some ''user'') (Some ''secret'') True []" "portal_ok five_booked"
        "''https://portal/tx/0''" "''account''" "''booked''" world0]
      get_transactions_accepted [of validate_dates "''01.01.2024''" "''01.03.2024''"
        api_session "''01.01.2024''" "''01.03.2024''"
        "ApiWrapper (Some ''user'') (Some ''secret'') [] (MfaInt 1)" "portal_ok five_booked"
        "''https://portal/tx/0''" "''account''" "''booked''" world0]
    by (simp add: legacy_session_wrapper api_session_wrapper world0_def)
qed

text \<open>
  Claim C5. When the validator rejects the date range, \<open>get_transactions\<close> raises
  the validator's error, the network state is as before and the only call recorded is
  that of the validator: no method of the variant has run. When the validator accepts,
  the variant's \<open>get_transactions\<close> is called once, with the dates the validator
  returned.
\<close>

theorem invalid_range_reaches_no_variant:
  "(vd df dt 3 (legacy_login s) = Inl e \<longrightarrow>
      get_transactions vd P s url atype df dt tt wd =
        (Inl e, s, wd\<lparr>calls := calls wd @ [EvValidate df dt 3 (legacy_login s)]\<rparr>)) \<and>
   (vd df dt 3 (legacy_login s) = Inr (df', dt') \<longrightarrow> wrapper s = Some w \<longrightarrow>
      calls (snd (snd (get_transactions vd P s url atype df dt tt wd))) =
        calls wd @ [EvValidate df dt 3 (legacy_login s),
                    EvCall w (GetTransactions url atype df' dt' tt)])"
  using get_transactions_rejected [of vd df dt s e P url atype tt wd]
    get_transactions_accepted [of vd df dt s df' dt' w P url atype tt wd]
  by simp

text \<open>
  The scenario of the specification, ten years under a limit of three, and an accepted
  range of two months.
\<close>

theorem invalid_range_reaches_no_variant_witness:
  "get_transactions validate_dates (portal_ok five_booked) api_session
     ''https://portal/tx/0'' ''account'' ''10.01.2020'' ''10.01.2030'' ''booked'' world0 =
     (Inl (DKBRoboError DateRangeError ''date range exceeds the maximum span''), api_session,
      \<lparr>net = 0, calls = [EvValidate ''10.01.2020'' ''10.01.2030'' 3 False]\<rparr>) \<and>
   calls (snd (snd (get_transactions validate_dates (portal_ok five_booked) api_session
     ''https://portal/tx/0'' ''account'' ''01.01.2024'' ''01.03.2024'' ''booked'' world0))) =
     [EvValidate ''01.01.2024'' ''01.03.2024'' 3 False,
      EvCall (ApiWrapper (Some ''user'') (Some ''secret'') [] (MfaInt 1))
        (GetTransactions ''https://portal/tx/0'' ''account'' ''01.01.2024'' ''01.03.2024''
           ''booked'')]"
proof -
  let ?w = "ApiWrapper (Some ''user'') (Some ''secret'') [] (MfaInt 1)"
  let ?e = "DKBRoboError DateRangeError ''date range exceeds the maximum span''"
  have bad: "validate_dates ''10.01.2020'' ''10.01.2030'' 3 (legacy_login api_session) = Inl ?e"
    by (simp add: api_session_wrapper validate_scenario_too_long)
  have good: "validate_dates ''01.01.2024'' ''01.03.2024'' 3 (legacy_login api_session) =
                Inr (''01.01.2024'', ''01.03.2024'')"
    by (simp add: api_session_wrapper validate_scenario_ok)
  have w: "wrapper api_session = Some ?w"
    by (simp add: api_session_wrapper)
  show ?thesis
    using invalid_range_reaches_no_variant [of validate_dates "''10.01.2020''" "''10.01.2030''"
        api_session ?e "portal_ok five_booked" "''https://portal/tx/0''" "''account''"
        "''booked''" world0]
      invalid_range_reaches_no_variant [of validate_dates "''01.01.2024''" "''01.03.2024''"
        api_session _ "portal_ok five_booked" "''https://portal/tx/0''" "''account''"
        "''booked''" world0 "''01.01.2024''" "''01.03.2024''" ?w]
      bad good w
    by (simp add: api_session_wrapper world0_def)
qed

text \<open>
  Claim C6. With the date range accepted, whatever list the variant's
  \<open>get_transactions\<close> returns is the list the facade returns: the same records in
  the same order, the empty list included.
\<close>

theorem transactions_returned_unmodified:
  assumes "wrapper s = Some w"
    and "vd df dt 3 (legacy_login s) = Inr (df', dt')"
    and "fst (get_transactions_impl P w url atype df' dt' tt (net wd)) = Inr txs"
  shows "fst (get_transactions vd P s url atype df dt tt wd) = Inr txs"
  using get_transactions_accepted [of vd df dt s df' dt' w P url atype tt wd] assms by simp

text \<open>
  The scenario of the specification: five booked transactions come back as they are,
  and no reserved transaction gives the empty list, not an error.
\<close>

theorem transactions_returned_unmodified_witness:
  "fst (get_transactions validate_dates (portal_ok five_booked) api_session
          ''https://portal/tx/0'' ''account'' ''01.01.2024'' ''01.03.2024'' ''booked'' world0) =
     Inr five_booked \<and>
   fst (get_transactions validate_dates (portal_ok five_booked) api_session
          ''https://portal/tx/0'' ''account'' ''01.01.2024'' ''01.03.2024'' ''reserved'' world0) =
     Inr []"
  using
    transactions_returned_unmodified [of api_session
      "ApiWrapper (Some ''user'') (Some ''secret'') [] (MfaInt 1)" validate_dates
      "''01.01.2024''" "''01.03.2024''" "''01.01.2024''" "''01.03.2024''"
      "portal_ok five_booked" "''https://portal/tx/0''" "''account''" "''booked''" world0
      five_booked]
    transactions_returned_unmodified [of api_session
      "ApiWrapper (Some ''user'') (Some ''secret'') [] (MfaInt 1)" validate_dates
      "''01.01.2024''" "''01.03.2024''" "''01.01.2024''" "''01.03.2024''"
      "portal_ok five_booked" "''https://portal/tx/0''" "''account''" "''reserved''" world0
      "[]"]
  by (simp add: api_session_wrapper validate_scenario_ok portal_ok_def)

section \<open>The account directory\<close>

text \<open>
  Claim C9. None of the six read operations changes the account directory or the
  last-login value of the instance, whether the variant returns or raises. Scope entry
  always builds a wrapper and logs in on it, and when that login returns, the directory
  and the last-login value of the instance are the ones it returned, whatever the
  instance held before.
\<close>

theorem reads_keep_directory:
  "account_dic (fst (snd (get_transactions vd P s url atype df dt tt wd))) = account_dic s \<and>
   last_login (fst (snd (get_transactions vd P s url atype df dt tt wd))) = last_login s \<and>
   account_dic (fst (snd (get_credit_limits P s wd))) = account_dic s \<and>
   last_login (fst (snd (get_credit_limits P s wd))) = last_login s \<and>
   account_dic (fst (snd (get_standing_orders P s uid wd))) = account_dic s \<and>
   last_login (fst (snd (get_standing_orders P s uid wd))) = last_login s \<and>
   account_dic (fst (snd (get_exemption_order P s wd))) = account_dic s \<and>
   last_login (fst (snd (get_exemption_order P s wd))) = last_login s \<and>
   account_dic (fst (snd (get_points P s wd))) = account_dic s \<and>
   last_login (fst (snd (get_points P s wd))) = last_login s \<and>
   account_dic (fst (snd (scan_postbox P s path da ar pd wd))) = account_dic s \<and>
   last_login (fst (snd (scan_postbox P s path da ar pd wd))) = last_login s \<and>
   (\<exists>w. wrapper (fst (snd (enter P s wd))) = Some w \<and>
        calls (snd (snd (enter P s wd))) = calls wd @ [EvCall w Login] \<and>
        (fst (login_impl P w (net wd)) = Inr (ad, ll) \<longrightarrow>
           fst (enter P s wd) = Inr () \<and>
           account_dic (fst (snd (enter P s wd))) = ad \<and>
           last_login (fst (snd (enter P s wd))) = Some ll))"
proof -
  have "fst (snd (get_transactions vd P s url atype df dt tt wd)) = s"
    by (simp add: get_transactions_def Let_def split: sum.split prod.split)
  moreover have "fst (snd (get_credit_limits P s wd)) = s"
    by (simp add: get_credit_limits_def split: prod.split)
  moreover have "fst (snd (get_standing_orders P s uid wd)) = s"
    by (simp add: get_standing_orders_def split: prod.split)
  moreover have "fst (snd (get_exemption_order P s wd)) = s"
    by (simp add: get_exemption_order_def split: prod.split)
  moreover have "fst (snd (get_points P s wd)) = s"
    by (simp add: get_points_def split: prod.split)
  moreover have "fst (snd (scan_postbox P s path da ar pd wd)) = s"
    by (simp add: scan_postbox_def split: prod.split)
  moreover have
    "\<exists>w. wrapper (fst (snd (enter P s wd))) = Some w \<and>
         calls (snd (snd (enter P s wd))) = calls wd @ [EvCall w Login] \<and>
         (fst (login_impl P w (net wd)) = Inr (ad, ll) \<longrightarrow>
            fst (enter P s wd) = Inr () \<and>
            account_dic (fst (snd (enter P s wd))) = ad \<and>
            last_login (fst (snd (enter P s wd))) = Some ll)"
  proof -
    obtain w where w: "wrapper (fst (snd (enter P s wd))) = Some w"
      using enter_wrapper by blast
    show ?thesis
      using w enter_calls [OF w] enter_returns [OF w, of ad ll] by blast
  qed
  ultimately show ?thesis by simp
qed

text \<open>
  An instance that already holds the directory of an earlier login enters again, against
  a portal that by now returns a different directory and a later last-login time: the
  instance then holds the new ones, not the old.
\<close>

theorem reads_keep_directory_witness:
  "account_dic api_session = demo_accounts \<and>
   last_login api_session = Some ''01.01.2024 10:00'' \<and>
   later_accounts \<noteq> demo_accounts \<and>
   fst (enter portal_later api_session world0) = Inr () \<and>
   account_dic (fst (snd (enter portal_later api_session world0))) = later_accounts \<and>
   last_login (fst (snd (enter portal_later api_session world0))) = Some ''05.02.2024 08:30''"
proof -
  have before: "account_dic api_session = demo_accounts"
      "last_login api_session = Some ''01.01.2024 10:00''"
    by (simp_all add: api_session_def enter_unfold Let_def portal_ok_def)
  have differ: "later_accounts \<noteq> demo_accounts"
    by (simp add: later_accounts_def demo_accounts_def)
  have login: "fst (login_impl portal_later w (net world0)) =
                 Inr (later_accounts, ''05.02.2024 08:30'')" for w
    by (simp add: portal_later_def)
  from reads_keep_directory [of _ portal_later api_session _ _ _ _ _ world0
      _ _ _ _ _ later_accounts "''05.02.2024 08:30''"]
  obtain w where
    "fst (login_impl portal_later w (net world0)) = Inr (later_accounts, ''05.02.2024 08:30'') \<longrightarrow>
       fst (enter portal_later api_session world0) = Inr () \<and>
       account_dic (fst (snd (enter portal_later api_session world0))) = later_accounts \<and>
       last_login (fst (snd (enter portal_later api_session world0))) = Some ''05.02.2024 08:30''"
    by blast
  with login have "fst (enter portal_later api_session world0) = Inr () \<and>
       account_dic (fst (snd (enter portal_later api_session world0))) = later_accounts \<and>
       last_login (fst (snd (enter portal_later api_session world0))) = Some ''05.02.2024 08:30''"
    by blast
  with before differ show ?thesis by simp
qed

end
